theory Spec2Isabelle
  imports Complex_Main
begin

section \<open>Values and errors of the script\<close>

text \<open>
  The script \<^verbatim>\<open>js/main.js\<close> is a single IIFE of small modules. A JavaScript string
  is modelled as a \<^typ>\<open>string\<close>: a list of 8-bit characters, which covers every code
  unit up to U+00FF. A thrown exception is a value of \<open>js_error\<close>; a computation that
  may throw returns \<open>js_error + 'a\<close> with \<open>Inl\<close> for the throw.
\<close>

datatype js_error =
    InvalidCharacterError
  | TypeError
  | Error string

fun message :: "js_error \<Rightarrow> string" where
  "message InvalidCharacterError = ''The string to be decoded is not correctly encoded.''"
| "message TypeError = ''TypeError''"
| "message (Error m) = m"

section \<open>Decoder\<close>

subsection \<open>The platform function atob\<close>

text \<open>
  \<^verbatim>\<open>atob\<close> is supplied by the browser. It is modelled after the forgiving-base64
  decode algorithm that defines it: ASCII whitespace is removed, one or two trailing
  \<open>=\<close> are removed when the length is a multiple of four, a length that leaves
  remainder one fails, a character outside the alphabet fails, and the remaining
  characters are read six bits at a time. On failure \<^verbatim>\<open>atob\<close> throws.
\<close>

definition ascii_whitespace :: "char \<Rightarrow> bool" where
  "ascii_whitespace c \<longleftrightarrow>
     c = CHR 0x09 \<or> c = CHR 0x0A \<or> c = CHR 0x0C \<or> c = CHR 0x0D \<or> c = CHR 0x20"

definition base64_value :: "char \<Rightarrow> nat option" where
  "base64_value c =
     (let n = (of_char c :: nat) in
      if 65 \<le> n \<and> n \<le> 90 then Some (n - 65)
      else if 97 \<le> n \<and> n \<le> 122 then Some (n - 71)
      else if 48 \<le> n \<and> n \<le> 57 then Some (n + 4)
      else if n = 43 then Some 62
      else if n = 47 then Some 63
      else None)"

definition remove_padding :: "string \<Rightarrow> string" where
  "remove_padding d =
     (if length d mod 4 = 0 then
        (if 2 \<le> length d \<and> last d = CHR ''='' \<and> last (butlast d) = CHR ''=''
           then butlast (butlast d)
         else if d \<noteq> [] \<and> last d = CHR ''='' then butlast d
         else d)
      else d)"

fun sextets_to_bytes :: "nat list \<Rightarrow> string" where
  "sextets_to_bytes (a # b # c # d # rest) =
     (let n = ((a * 64 + b) * 64 + c) * 64 + d in
      [char_of (n div 65536), char_of (n div 256 mod 256), char_of (n mod 256)])
     @ sextets_to_bytes rest"
| "sextets_to_bytes [a, b, c] =
     (let n = ((a * 64 + b) * 64 + c) div 4 in
      [char_of (n div 256), char_of (n mod 256)])"
| "sextets_to_bytes [a, b] = [char_of ((a * 64 + b) div 16)]"
| "sextets_to_bytes [a] = []"
| "sextets_to_bytes [] = []"

definition strip_data :: "string \<Rightarrow> string" where
  "strip_data dat = remove_padding (filter (\<lambda>c. \<not> ascii_whitespace c) dat)"

definition forgiving_base64_decode :: "string \<Rightarrow> string option" where
  "forgiving_base64_decode dat =
     (let d = strip_data dat in
      if length d mod 4 = 1 then None
      else (case those (map base64_value d) of
              None \<Rightarrow> None
            | Some ns \<Rightarrow> Some (sextets_to_bytes ns)))"

definition atob :: "string \<Rightarrow> js_error + string" where
  "atob dat =
     (case forgiving_base64_decode dat of
        None \<Rightarrow> Inl InvalidCharacterError
      | Some s \<Rightarrow> Inr s)"

text \<open>
  Validity under the encoding, stated on the input alone: after whitespace and padding are
  removed, the length does not leave remainder one and every character is in the alphabet.
\<close>

definition base64_char :: "char \<Rightarrow> bool" where
  "base64_char c \<longleftrightarrow> base64_value c \<noteq> None"

definition valid_base64 :: "string \<Rightarrow> bool" where
  "valid_base64 dat \<longleftrightarrow>
     length (strip_data dat) mod 4 \<noteq> 1 \<and> list_all base64_char (strip_data dat)"

subsection \<open>decode\<close>

text \<open>
  \<^verbatim>\<open>function decode(str) { try { return atob(str); } catch (e) { return str; } }\<close>
\<close>

definition decode :: "string \<Rightarrow> js_error + string" where
  "decode str = (case atob str of Inr s \<Rightarrow> Inr s | Inl e \<Rightarrow> Inr str)"

text \<open>The encoded contact fields of the script.\<close>

definition CONTACT_name :: string where "CONTACT_name = ''U2ViYXN0aWFuIEdlcmtlbg==''"
definition CONTACT_street :: string where "CONTACT_street = ''TmV1ZXIgV2VnIDI5''"
definition CONTACT_city :: string where "CONTACT_city = ''Njk0MTIgRWJlcmJhY2g=''"
definition CONTACT_country :: string where "CONTACT_country = ''RGV1dHNjaGxhbmQ=''"
definition CONTACT_email :: string where
  "CONTACT_email = ''c2ViYXN0aWFuLWdlcmtlbkBob3RtYWlsLmNvbQ==''"
definition CONTACT_phone :: string where "CONTACT_phone = ''KzQ5IDE3NiAzNDIwODgyMw==''"

text \<open>\<^verbatim>\<open>decode(decode(str))\<close>: the second call runs on what the first returned.\<close>

definition decode_twice :: "string \<Rightarrow> js_error + string" where
  "decode_twice str = (case decode str of Inl e \<Rightarrow> Inl e | Inr d \<Rightarrow> decode d)"

section \<open>Content model\<close>

text \<open>
  The entries of the two JSON documents, with the fields the renderer reads. An optional
  field is an \<open>option\<close>; JavaScript tests such a field for truthiness, and both a missing
  value and the empty string are falsy.
\<close>

record project_links =
  github :: "string option"
  demo :: "string option"

record project_entry =
  title :: string
  description :: string
  tags :: "string list"
  image :: "string option"
  status :: string
  links :: project_links
  featured :: bool

record timeline_entry =
  period :: string
  type :: string
  title :: string
  organization :: string
  location :: string
  current :: bool
  description :: "string option"
  highlights :: "string list option"

definition truthy :: "string option \<Rightarrow> bool" where
  "truthy v = (case v of None \<Rightarrow> False | Some s \<Rightarrow> s \<noteq> [])"

section \<open>Renderer: project cards\<close>

text \<open>
  \<^verbatim>\<open>renderProjects\<close> maps every project to one template literal and joins the results.
  Each interpolation of the template is a function below; the static text between the
  interpolations is copied from the script, line breaks and indentation included.
\<close>

definition placeholder_block :: string where
  \<open>placeholder_block =
     ''<div class="project-card__placeholder">\<newline>                    <svg width="48" height="48" viewBox="0 0 24 24" fill="none" stroke="currentColor" stroke-width="1.5">\<newline>                      <rect x="3" y="3" width="18" height="18" rx="2" ry="2"/>\<newline>                      <circle cx="8.5" cy="8.5" r="1.5"/>\<newline>                      <polyline points="21 15 16 10 5 21"/>\<newline>                    </svg>\<newline>                  </div>''\<close>

definition image_block :: "project_entry \<Rightarrow> string" where
  \<open>image_block project =
     (case project_entry.image project of
        None \<Rightarrow> placeholder_block
      | Some url \<Rightarrow>
          if url \<noteq> []
          then ''<img src="'' @ url @ ''" alt="'' @ project_entry.title project @
               ''" loading="lazy" width="400" height="225">''
          else placeholder_block)\<close>

definition tag_span :: "string \<Rightarrow> string" where
  \<open>tag_span tag = ''<span class="tag">'' @ tag @ ''</span>''\<close>

definition tags_block :: "project_entry \<Rightarrow> string" where
  \<open>tags_block project =
     (if length (project_entry.tags project) > 0
      then ''<div class="project-card__tags">\<newline>                    '' @
           concat (map tag_span (project_entry.tags project)) @
           ''\<newline>                  </div>''
      else '''')\<close>

definition demo_link_body :: string where
  \<open>demo_link_body =
     ''" class="project-card__link" target="_blank" rel="noopener noreferrer">\<newline>                          <svg width="16" height="16" viewBox="0 0 24 24" fill="none" stroke="currentColor" stroke-width="2">\<newline>                            <path d="M18 13v6a2 2 0 0 1-2 2H5a2 2 0 0 1-2-2V8a2 2 0 0 1 2-2h6"/>\<newline>                            <polyline points="15 3 21 3 21 9"/>\<newline>                            <line x1="10" y1="14" x2="21" y2="3"/>\<newline>                          </svg>\<newline>                          Demo\<newline>                        </a>''\<close>

definition github_link_body :: string where
  \<open>github_link_body =
     ''" class="project-card__link" target="_blank" rel="noopener noreferrer">\<newline>                          <svg width="16" height="16" viewBox="0 0 24 24" fill="currentColor">\<newline>                            <path d="M12 0C5.37 0 0 5.37 0 12c0 5.31 3.435 9.795 8.205 11.385.6.105.825-.255.825-.57 0-.285-.015-1.23-.015-2.235-3.015.555-3.795-.735-4.035-1.41-.135-.345-.72-1.41-1.23-1.695-.42-.225-1.02-.78-.015-.795.945-.015 1.62.87 1.845 1.23 1.08 1.815 2.805 1.305 3.495.99.105-.78.42-1.305.765-1.605-2.67-.3-5.46-1.335-5.46-5.925 0-1.305.465-2.385 1.23-3.225-.12-.3-.54-1.53.12-3.18 0 0 1.005-.315 3.3 1.23.96-.27 1.98-.405 3-.405s2.04.135 3 .405c2.295-1.56 3.3-1.23 3.3-1.23.66 1.65.24 2.88.12 3.18.765.84 1.23 1.905 1.23 3.225 0 4.605-2.805 5.625-5.475 5.925.435.375.81 1.095.81 2.22 0 1.605-.015 2.895-.015 3.3 0 .315.225.69.825.57A12.02 12.02 0 0024 12c0-6.63-5.37-12-12-12z"/>\<newline>                          </svg>\<newline>                          Code\<newline>                        </a>''\<close>

definition demo_link :: "project_entry \<Rightarrow> string" where
  \<open>demo_link project =
     (case demo (project_entry.links project) of
        None \<Rightarrow> ''''
      | Some url \<Rightarrow> if url \<noteq> [] then ''<a href="'' @ url @ demo_link_body else '''')\<close>

definition github_link :: "project_entry \<Rightarrow> string" where
  \<open>github_link project =
     (case github (project_entry.links project) of
        None \<Rightarrow> ''''
      | Some url \<Rightarrow> if url \<noteq> [] then ''<a href="'' @ url @ github_link_body else '''')\<close>

definition isComingSoon :: "project_entry \<Rightarrow> bool" where
  "isComingSoon project \<longleftrightarrow> project_entry.status project = ''coming-soon''"

definition cardClass :: "project_entry \<Rightarrow> string" where
  "cardClass project =
     (if isComingSoon project then ''card project-card project-card--coming-soon''
      else ''card project-card'')"

definition links_open :: string where
  \<open>links_open = ''<div class="project-card__links">''\<close>

definition links_block :: "project_entry \<Rightarrow> string" where
  \<open>links_block project =
     (if \<not> isComingSoon project \<and>
         (truthy (github (project_entry.links project)) \<or>
          truthy (demo (project_entry.links project)))
      then links_open @ ''\<newline>                    '' @
           demo_link project @
           ''\<newline>                    '' @
           github_link project @
           ''\<newline>                  </div>''
      else '''')\<close>

definition project_card :: "project_entry \<Rightarrow> string" where
  \<open>project_card project =
     ''\<newline>          <article class="'' @ cardClass project @
     '' reveal">\<newline>            <div class="project-card__image">\<newline>              '' @
     image_block project @
     ''\<newline>            </div>\<newline>            <div class="project-card__body">\<newline>              <h3 class="project-card__title">'' @
     project_entry.title project @
     ''</h3>\<newline>              <p class="project-card__description">'' @
     project_entry.description project @
     ''</p>\<newline>              '' @
     tags_block project @
     ''\<newline>              '' @
     links_block project @
     ''\<newline>            </div>\<newline>          </article>\<newline>        ''\<close>

definition projects_markup :: "project_entry list \<Rightarrow> string" where
  "projects_markup projects = concat (map project_card projects)"

definition fallback_markup :: string where
  \<open>fallback_markup =
     ''\<newline>        <article class="card project-card reveal">\<newline>          <div class="project-card__image">\<newline>            <div class="project-card__placeholder">\<newline>              <svg width="48" height="48" viewBox="0 0 24 24" fill="none" stroke="currentColor" stroke-width="1.5">\<newline>                <rect x="3" y="3" width="18" height="18" rx="2" ry="2"/>\<newline>                <circle cx="8.5" cy="8.5" r="1.5"/>\<newline>                <polyline points="21 15 16 10 5 21"/>\<newline>              </svg>\<newline>            </div>\<newline>          </div>\<newline>          <div class="project-card__body">\<newline>            <h3 class="project-card__title">Multi-Camera Trajectory Fusion</h3>\<newline>            <p class="project-card__description">Diploma thesis project developing algorithms to merge vehicle trajectories from multiple overlapping camera views into unified traffic flow representations.</p>\<newline>            <div class="project-card__tags">\<newline>              <span class="tag">Python</span>\<newline>              <span class="tag">OpenCV</span>\<newline>              <span class="tag">YOLO</span>\<newline>              <span class="tag">Tracking</span>\<newline>            </div>\<newline>          </div>\<newline>        </article>\<newline>        <article class="card project-card project-card--coming-soon reveal">\<newline>          <div class="project-card__image">\<newline>            <div class="project-card__placeholder">\<newline>              <svg width="48" height="48" viewBox="0 0 24 24" fill="none" stroke="currentColor" stroke-width="1.5">\<newline>                <circle cx="12" cy="12" r="10"/>\<newline>                <polyline points="12 6 12 12 16 14"/>\<newline>              </svg>\<newline>            </div>\<newline>          </div>\<newline>          <div class="project-card__body">\<newline>            <h3 class="project-card__title">More Projects Coming Soon</h3>\<newline>            <p class="project-card__description">Additional projects showcasing traffic engineering, computer vision, and software development work will be added here.</p>\<newline>          </div>\<newline>        </article>\<newline>      ''\<close>

section \<open>Renderer: timeline items\<close>

definition isCurrentClass :: "timeline_entry \<Rightarrow> string" where
  "isCurrentClass item = (if current item then ''timeline__item--current'' else '''')"

definition typeClass :: "timeline_entry \<Rightarrow> string" where
  "typeClass item =
     (if timeline_entry.type item = ''education'' then ''tag--education'' else ''tag--work'')"

definition typeLabel :: "timeline_entry \<Rightarrow> string" where
  "typeLabel item = (if timeline_entry.type item = ''education'' then ''Education'' else ''Work'')"

definition current_badge :: "timeline_entry \<Rightarrow> string" where
  \<open>current_badge item = (if current item then ''<span class="tag tag--highlight">Current</span>'' else '''')\<close>

definition description_block :: "timeline_entry \<Rightarrow> string" where
  \<open>description_block item =
     (case timeline_entry.description item of
        None \<Rightarrow> ''''
      | Some d \<Rightarrow> if d \<noteq> [] then ''<p class="timeline__description">'' @ d @ ''</p>'' else '''')\<close>

definition highlights_block :: "timeline_entry \<Rightarrow> string" where
  \<open>highlights_block item =
     (case highlights item of
        None \<Rightarrow> ''''
      | Some hs \<Rightarrow>
          if length hs > 0
          then ''<div class="timeline__highlights">\<newline>                    '' @
               concat (map tag_span hs) @
               ''\<newline>                  </div>''
          else '''')\<close>

definition timeline_item :: "timeline_entry \<Rightarrow> string" where
  \<open>timeline_item item =
     ''\<newline>          <div class="timeline__item '' @ isCurrentClass item @
     ''">\<newline>            <div class="timeline__dot"></div>\<newline>            <div class="timeline__content">\<newline>              <div class="timeline__header">\<newline>                <span class="timeline__period">'' @
     period item @
     ''</span>\<newline>                <span class="tag timeline__type '' @ typeClass item @ ''">'' @ typeLabel item @
     ''</span>\<newline>                '' @
     current_badge item @
     ''\<newline>              </div>\<newline>              <h3 class="timeline__title">'' @
     timeline_entry.title item @
     ''</h3>\<newline>              <p class="timeline__org">'' @
     organization item @
     ''</p>\<newline>              <p class="timeline__location">'' @
     location item @
     ''</p>\<newline>              '' @
     description_block item @
     ''\<newline>              '' @
     highlights_block item @
     ''\<newline>            </div>\<newline>          </div>\<newline>        ''\<close>

section \<open>Observations on markup\<close>

text \<open>
  Two read-only functions on a markup string, used to state what a fragment shows:
  how often a given text occurs in it, and the texts enclosed between an opening and the
  next closing mark.
\<close>

fun starts_with :: "string \<Rightarrow> string \<Rightarrow> bool" where
  "starts_with [] s = True"
| "starts_with (p # ps) [] = False"
| "starts_with (p # ps) (c # cs) = (if p = c then starts_with ps cs else False)"

fun after_prefix :: "string \<Rightarrow> string \<Rightarrow> string option" where
  "after_prefix [] s = Some s"
| "after_prefix (p # ps) [] = None"
| "after_prefix (p # ps) (c # cs) = (if p = c then after_prefix ps cs else None)"

fun occurrences :: "string \<Rightarrow> string \<Rightarrow> nat" where
  "occurrences pat [] = 0"
| "occurrences pat (c # cs) =
     (if starts_with pat (c # cs) then 1 else 0) + occurrences pat cs"

fun take_until :: "string \<Rightarrow> string \<Rightarrow> string" where
  "take_until close [] = []"
| "take_until close (c # cs) =
     (if starts_with close (c # cs) then [] else c # take_until close cs)"

fun texts_between :: "string \<Rightarrow> string \<Rightarrow> string \<Rightarrow> string list" where
  "texts_between opn close [] = []"
| "texts_between opn close (c # cs) =
     (case after_prefix opn (c # cs) of
        None \<Rightarrow> texts_between opn close cs
      | Some rest \<Rightarrow> take_until close rest # texts_between opn close cs)"

definition card_count :: "string \<Rightarrow> nat" where
  \<open>card_count markup = occurrences ''<article class="'' markup\<close>

definition card_titles :: "string \<Rightarrow> string list" where
  \<open>card_titles markup =
     texts_between ''<h3 class="project-card__title">'' ''</h3>'' markup\<close>

definition links_blocks :: "string \<Rightarrow> nat" where
  "links_blocks markup = occurrences links_open markup"

definition timeline_periods :: "string \<Rightarrow> string list" where
  \<open>timeline_periods markup =
     texts_between ''<span class="timeline__period">'' ''</span>'' markup\<close>

section \<open>Entries whose texts carry no markup\<close>

text \<open>
  The templates insert the texts of an entry as they are. A text is plain when it has no
  \<open><\<close>, so that it cannot open an element of its own; an entry is plain when every text
  the template inserts is plain.
\<close>

definition plain_text :: "string \<Rightarrow> bool" where
  "plain_text s \<longleftrightarrow> CHR ''<'' \<notin> set s"

definition plain_option :: "string option \<Rightarrow> bool" where
  "plain_option v = (case v of None \<Rightarrow> True | Some s \<Rightarrow> plain_text s)"

definition plain_project :: "project_entry \<Rightarrow> bool" where
  "plain_project project \<longleftrightarrow>
     plain_text (project_entry.title project) \<and>
     plain_text (project_entry.description project) \<and>
     list_all plain_text (project_entry.tags project) \<and>
     plain_option (project_entry.image project) \<and>
     plain_option (github (project_entry.links project)) \<and>
     plain_option (demo (project_entry.links project))"

definition plain_timeline_entry :: "timeline_entry \<Rightarrow> bool" where
  "plain_timeline_entry item \<longleftrightarrow>
     plain_text (period item) \<and>
     plain_text (timeline_entry.title item) \<and>
     plain_text (organization item) \<and>
     plain_text (location item) \<and>
     plain_option (timeline_entry.description item) \<and>
     (case highlights item of None \<Rightarrow> True | Some hs \<Rightarrow> list_all plain_text hs)"

text \<open>The condition under which the template emits the links block.\<close>

definition links_shown :: "project_entry \<Rightarrow> bool" where
  "links_shown p \<longleftrightarrow>
     \<not> isComingSoon p \<and>
     (truthy (github (project_entry.links p)) \<or> truthy (demo (project_entry.links p)))"

text \<open>Two project entries that carry both links: one coming soon, one not.\<close>

definition linked_project :: "string \<Rightarrow> project_entry" where
  "linked_project st =
     \<lparr>project_entry.title = ''Fusion'', project_entry.description = ''Trajectories'', tags = [''Python''],
      image = None, status = st,
      links = \<lparr>github = Some ''https://github.com/a/b'', demo = Some ''https://a.example''\<rparr>,
      featured = True\<rparr>"

section \<open>Content loading\<close>

text \<open>
  The part of the page that \<^verbatim>\<open>DataLoader\<close> reads and writes. A container that the
  page does not have is \<open>None\<close>; otherwise the field holds its \<^verbatim>\<open>innerHTML\<close>.
  \<open>console\<close> collects the two arguments of every \<^verbatim>\<open>console.warn\<close>. Arrays of timeline
  entries live in a store addressed by position, so that a function which reverses an
  array in place is told apart from one which reverses a copy. \<open>observer\<close> is
  \<^verbatim>\<open>ScrollAnimations.observer\<close>: \<open>None\<close> while no observer exists, otherwise the
  elements registered with it.
\<close>

datatype element_ref = ProjectCard nat | TimelineItem nat

record loader_state =
  projectsGrid :: "string option"
  timelineContainer :: "string option"
  console :: "(string \<times> string) list"
  arrays :: "timeline_entry list list"
  observer :: "element_ref list option"

text \<open>
  A call either returns or throws; in both cases the effects made so far remain. \<open>Inl\<close>
  carries the thrown error together with the state at the throw.
\<close>

type_synonym outcome = "(js_error \<times> loader_state) + loader_state"

fun final_state :: "outcome \<Rightarrow> loader_state" where
  "final_state (Inl (e, st)) = st"
| "final_state (Inr st) = st"

text \<open>
  What the network gives for one request: \<^verbatim>\<open>fetch\<close> rejects, or it resolves to a
  response with its \<^verbatim>\<open>ok\<close> flag whose \<^verbatim>\<open>json()\<close> rejects or yields the document.
  The document is reduced to the one property the loader reads, \<open>None\<close> when the
  document lacks it.
\<close>

datatype 'a json_body = Malformed js_error | Parsed 'a

datatype 'a fetch_outcome = Rejected js_error | Responded bool "'a json_body"

fun fetch_failed :: "'a fetch_outcome \<Rightarrow> bool" where
  "fetch_failed (Rejected e) = True"
| "fetch_failed (Responded ok (Malformed e)) = True"
| "fetch_failed (Responded ok (Parsed d)) = (\<not> ok)"

definition console_warn :: "string \<Rightarrow> string \<Rightarrow> loader_state \<Rightarrow> loader_state" where
  "console_warn a b st = st\<lparr>console := console st @ [(a, b)]\<rparr>"

text \<open>\<^verbatim>\<open>ScrollAnimations.observe(element)\<close> registers the element if an observer exists.\<close>

definition observe :: "element_ref \<Rightarrow> loader_state \<Rightarrow> loader_state" where
  "observe el st =
     (case observer st of
        None \<Rightarrow> st
      | Some els \<Rightarrow> st\<lparr>observer := Some (els @ [el])\<rparr>)"

subsection \<open>Projects\<close>

text \<open>
  \<^verbatim>\<open>renderProjects\<close> assigns the joined cards to the grid and registers every element
  of class \<^verbatim>\<open>reveal\<close> inside the grid, which is one \<^verbatim>\<open>article\<close> per card.
\<close>

definition renderProjects :: "project_entry list \<Rightarrow> loader_state \<Rightarrow> outcome" where
  "renderProjects projects st =
     (case projectsGrid st of
        None \<Rightarrow> Inl (TypeError, st)
      | Some old \<Rightarrow>
          Inr (fold observe (map ProjectCard [0..<length projects])
                 (st\<lparr>projectsGrid := Some (projects_markup projects)\<rparr>)))"

definition renderProjectsFallback :: "loader_state \<Rightarrow> outcome" where
  "renderProjectsFallback st =
     (case projectsGrid st of
        None \<Rightarrow> Inl (TypeError, st)
      | Some old \<Rightarrow> Inr (st\<lparr>projectsGrid := Some fallback_markup\<rparr>))"

text \<open>The body of the \<^verbatim>\<open>try\<close> block of \<^verbatim>\<open>loadProjects\<close>.\<close>

definition loadProjects_try ::
  "project_entry list option fetch_outcome \<Rightarrow> loader_state \<Rightarrow> outcome" where
  "loadProjects_try response st =
     (case response of
        Rejected e \<Rightarrow> Inl (e, st)
      | Responded ok body \<Rightarrow>
          if \<not> ok then Inl (Error ''Failed to load projects'', st)
          else (case body of
                  Malformed e \<Rightarrow> Inl (e, st)
                | Parsed None \<Rightarrow> Inl (TypeError, st)
                | Parsed (Some projects) \<Rightarrow> renderProjects (filter featured projects) st))"

definition loadProjects ::
  "project_entry list option fetch_outcome \<Rightarrow> loader_state \<Rightarrow> outcome" where
  "loadProjects response st =
     (if projectsGrid st = None then Inr st
      else (case loadProjects_try response st of
              Inr st' \<Rightarrow> Inr st'
            | Inl (error, st') \<Rightarrow>
                renderProjectsFallback
                  (console_warn ''Projects data not available:'' (message error) st')))"

subsection \<open>Timeline\<close>

text \<open>
  \<^verbatim>\<open>[...items]\<close> allocates a new array with the elements of \<open>items\<close>;
  \<^verbatim>\<open>.reverse()\<close> reverses the array it is called on in place and returns it.
\<close>

definition array_new :: "timeline_entry list \<Rightarrow> loader_state \<Rightarrow> nat \<times> loader_state" where
  "array_new elems st = (length (arrays st), st\<lparr>arrays := arrays st @ [elems]\<rparr>)"

definition array_spread :: "nat \<Rightarrow> loader_state \<Rightarrow> nat \<times> loader_state" where
  "array_spread r st = array_new (arrays st ! r) st"

definition array_reverse :: "nat \<Rightarrow> loader_state \<Rightarrow> nat \<times> loader_state" where
  "array_reverse r st = (r, st\<lparr>arrays := (arrays st)[r := rev (arrays st ! r)]\<rparr>)"

text \<open>
  The argument of \<^verbatim>\<open>renderTimeline\<close> is a reference into the store, or \<open>None\<close> for
  \<^verbatim>\<open>undefined\<close>. Spreading a value that is not an array throws. After the assignment
  every element of class \<^verbatim>\<open>timeline__item\<close> is registered, one per rendered entry.
\<close>

definition renderTimeline :: "nat option \<Rightarrow> loader_state \<Rightarrow> outcome" where
  "renderTimeline items st =
     (case items of
        None \<Rightarrow> Inl (TypeError, st)
      | Some r \<Rightarrow>
          if \<not> r < length (arrays st) then Inl (TypeError, st)
          else
            (let (copy, st1) = array_spread r st;
                 (sortedItems, st2) = array_reverse copy st1;
                 cards = map timeline_item (arrays st2 ! sortedItems)
             in case timelineContainer st2 of
                  None \<Rightarrow> Inl (TypeError, st2)
                | Some old \<Rightarrow>
                    Inr (fold observe (map TimelineItem [0..<length cards])
                           (st2\<lparr>timelineContainer := Some (concat cards)\<rparr>))))"

definition loadTimeline_try ::
  "timeline_entry list option fetch_outcome \<Rightarrow> loader_state \<Rightarrow> outcome" where
  "loadTimeline_try response st =
     (case response of
        Rejected e \<Rightarrow> Inl (e, st)
      | Responded ok body \<Rightarrow>
          if \<not> ok then Inl (Error ''Failed to load timeline'', st)
          else (case body of
                  Malformed e \<Rightarrow> Inl (e, st)
                | Parsed None \<Rightarrow> renderTimeline None st
                | Parsed (Some entries) \<Rightarrow>
                    (let (r, st1) = array_new entries st in renderTimeline (Some r) st1)))"

definition loadTimeline ::
  "timeline_entry list option fetch_outcome \<Rightarrow> loader_state \<Rightarrow> outcome" where
  "loadTimeline response st =
     (if timelineContainer st = None then Inr st
      else (case loadTimeline_try response st of
              Inr st' \<Rightarrow> Inr st'
            | Inl (error, st') \<Rightarrow>
                Inr (console_warn ''Timeline data not available:'' (message error) st')))"

subsection \<open>The example timeline of the specification\<close>

definition entry_of_period :: "string \<Rightarrow> timeline_entry" where
  "entry_of_period p =
     \<lparr>period = p, type = ''work'', title = ''Engineer'', organization = ''Office'',
      location = ''Eberbach'', current = False, description = None, highlights = None\<rparr>"

definition example_page :: loader_state where
  "example_page =
     \<lparr>projectsGrid = Some [], timelineContainer = Some [], console = [],
      arrays = [[entry_of_period ''2019'', entry_of_period ''2021'', entry_of_period ''2023'']],
      observer = Some []\<rparr>"

section \<open>Scroll observer\<close>

text \<open>
  The part of the page that \<^verbatim>\<open>ScrollAnimations\<close> reads and writes: the class list of
  every element of the document, in document order, and the fill element of the timeline
  line. \<open>timelineLineFill\<close> is \<open>None\<close> when the page has no such element; otherwise it holds
  the values assigned to its \<^verbatim>\<open>style.height\<close> so far, oldest first, the last one being
  the height in effect. An element is identified by its position in \<open>elements\<close>.

  A JavaScript number is a double. The model computes the quotient exactly, as a rational,
  and keeps the two special results of a division by zero apart from the finite ones.
\<close>

datatype js_number = Finite rat | PlusInfinity | NaN

definition js_divide :: "nat \<Rightarrow> nat \<Rightarrow> js_number" where
  "js_divide a b =
     (if b = 0 then (if a = 0 then NaN else PlusInfinity)
      else Finite (rat_of_nat a / rat_of_nat b))"

fun js_times :: "js_number \<Rightarrow> rat \<Rightarrow> js_number" where
  "js_times (Finite q) k = Finite (q * k)"
| "js_times PlusInfinity k = PlusInfinity"
| "js_times NaN k = NaN"

record page =
  elements :: "string list list"
  timelineLineFill :: "js_number list option"

record entry =
  target :: nat
  isIntersecting :: bool


definition classList_contains :: "string \<Rightarrow> string list \<Rightarrow> bool" where
  "classList_contains c cl \<longleftrightarrow> c \<in> set cl"

text \<open>
  \<^verbatim>\<open>document.querySelectorAll('.timeline__item')\<close> and
  \<^verbatim>\<open>document.querySelectorAll('.timeline__item.is-visible')\<close>.
\<close>

definition timeline_items :: "page \<Rightarrow> string list list" where
  "timeline_items pg = filter (classList_contains ''timeline__item'') (elements pg)"

definition visible_timeline_items :: "page \<Rightarrow> string list list" where
  "visible_timeline_items pg =
     filter (\<lambda>cl. classList_contains ''timeline__item'' cl \<and> classList_contains ''is-visible'' cl)
       (elements pg)"

definition updateTimelineFill :: "page \<Rightarrow> page" where
  "updateTimelineFill pg =
     (case timelineLineFill pg of
        None \<Rightarrow> pg
      | Some heights \<Rightarrow>
          (let items = timeline_items pg;
               visibleItems = visible_timeline_items pg
           in if length items = 0 then pg
              else (let percentage = js_times (js_divide (length visibleItems) (length items)) 100
                    in pg\<lparr>timelineLineFill := Some (heights @ [percentage])\<rparr>)))"



text \<open>
  The progress in percent, as a rational: visible timeline elements over all timeline
  elements, times one hundred.
\<close>

definition progress :: "page \<Rightarrow> rat" where
  "progress pg =
     rat_of_nat (length (visible_timeline_items pg)) / rat_of_nat (length (timeline_items pg)) * 100"




text \<open>A page whose fill element exists but which has no timeline element.\<close>

definition page_without_timeline :: page where
  "page_without_timeline = \<lparr>elements = [[''card'', ''reveal'']], timelineLineFill = Some []\<rparr>"

section \<open>Evaluating the observations\<close>

text \<open>
  Rules for evaluating the scanning functions on long literal texts: the congruence rules
  keep the simplifier from walking through the remaining text at every step, and the
  rules for \<open>@\<close> scan a concatenation without building it first.
\<close>

lemma occurrences_cong: "pat = pat' \<Longrightarrow> occurrences pat s = occurrences pat' s" by simp
lemma starts_with_cong: "pat = pat' \<Longrightarrow> starts_with pat s = starts_with pat' s" by simp
lemma after_prefix_cong: "pat = pat' \<Longrightarrow> after_prefix pat s = after_prefix pat' s" by simp
lemma take_until_cong: "pat = pat' \<Longrightarrow> take_until pat s = take_until pat' s" by simp
lemma texts_between_cong: "a = a' \<Longrightarrow> b = b' \<Longrightarrow> texts_between a b s = texts_between a' b' s" by simp
lemmas scan_cong = occurrences_cong starts_with_cong after_prefix_cong take_until_cong texts_between_cong

lemma starts_with_append_Nil: "starts_with pat ([] @ ys) = starts_with pat ys" by simp
lemma starts_with_append_Cons:
  "starts_with (p # ps) ((c # xs) @ ys) = (if p = c then starts_with ps (xs @ ys) else False)" by simp
lemma starts_with_append_assoc: "starts_with pat ((a @ b) @ c) = starts_with pat (a @ (b @ c))" by simp
lemma after_prefix_append_Nil: "after_prefix pat ([] @ ys) = after_prefix pat ys" by simp
lemma after_prefix_append_Cons:
  "after_prefix (p # ps) ((c # xs) @ ys) = (if p = c then after_prefix ps (xs @ ys) else None)" by simp
lemma after_prefix_append_assoc: "after_prefix pat ((a @ b) @ c) = after_prefix pat (a @ (b @ c))" by simp
lemma occurrences_append_Nil: "occurrences pat ([] @ ys) = occurrences pat ys" by simp
lemma occurrences_append_Cons:
  "occurrences pat ((c # xs) @ ys) =
     (if starts_with pat (c # (xs @ ys)) then 1 else 0) + occurrences pat (xs @ ys)" by simp
lemma occurrences_append_assoc: "occurrences pat ((a @ b) @ c) = occurrences pat (a @ (b @ c))" by simp
lemma take_until_append_Nil: "take_until pat ([] @ ys) = take_until pat ys" by simp
lemma take_until_append_Cons:
  "take_until pat ((c # xs) @ ys) =
     (if starts_with pat (c # (xs @ ys)) then [] else c # take_until pat (xs @ ys))" by simp
lemma take_until_append_assoc: "take_until pat ((a @ b) @ c) = take_until pat (a @ (b @ c))" by simp
lemma texts_between_append_Nil: "texts_between opn cl ([] @ ys) = texts_between opn cl ys" by simp
lemma texts_between_append_Cons:
  "texts_between opn cl ((c # xs) @ ys) =
     (case after_prefix opn (c # (xs @ ys)) of
        None \<Rightarrow> texts_between opn cl (xs @ ys)
      | Some rest \<Rightarrow> take_until cl rest # texts_between opn cl (xs @ ys))" by simp
lemma texts_between_append_assoc:
  "texts_between opn cl ((a @ b) @ c) = texts_between opn cl (a @ (b @ c))" by simp

lemmas scan_simps =
  starts_with.simps after_prefix.simps occurrences.simps take_until.simps texts_between.simps
  starts_with_append_Nil starts_with_append_Cons starts_with_append_assoc
  after_prefix_append_Nil after_prefix_append_Cons after_prefix_append_assoc
  occurrences_append_Nil occurrences_append_Cons occurrences_append_assoc
  take_until_append_Nil take_until_append_Cons take_until_append_assoc
  texts_between_append_Nil texts_between_append_Cons texts_between_append_assoc

lemmas scan_eval =
  scan_simps char.inject simp_thms if_True if_False option.case add_0 add_0_right one_add_one

lemmas scan_weak_cong = scan_cong if_weak_cong option.case_cong_weak

section \<open>Properties of the decoder\<close>

lemmas decode_eval =
  decode_def atob_def forgiving_base64_decode_def strip_data_def remove_padding_def
  ascii_whitespace_def base64_value_def base64_char_def valid_base64_def char_of_eq_iff decode_twice_def

lemma those_map_None: "those (map base64_value xs) = None \<longleftrightarrow> \<not> list_all base64_char xs"
  by (induction xs) (auto simp: base64_char_def split: option.splits)

lemma those_map_length: "those (map f xs) = Some ys \<Longrightarrow> length ys = length xs"
  by (induction xs arbitrary: ys) (auto split: option.splits)

lemma forgiving_None_iff: "forgiving_base64_decode s = None \<longleftrightarrow> \<not> valid_base64 s"
proof (cases "those (map base64_value (strip_data s))")
  case None
  moreover from None have "\<not> list_all base64_char (strip_data s)"
    using those_map_None [of "strip_data s"] by simp
  ultimately show ?thesis
    by (simp add: forgiving_base64_decode_def valid_base64_def Let_def)
next
  case (Some ns)
  moreover from Some have "list_all base64_char (strip_data s)"
    using those_map_None [of "strip_data s"] by simp
  ultimately show ?thesis
    by (simp add: forgiving_base64_decode_def valid_base64_def Let_def)
qed

lemma atob_throws_iff: "(\<exists>e. atob s = Inl e) \<longleftrightarrow> \<not> valid_base64 s"
  using forgiving_None_iff [of s] by (auto simp: atob_def split: option.splits)

lemma atob_Inr_iff: "(\<exists>d. atob s = Inr d) \<longleftrightarrow> valid_base64 s"
  using forgiving_None_iff [of s] by (auto simp: atob_def split: option.splits)

lemma decode_invalid: "\<not> valid_base64 s \<Longrightarrow> decode s = Inr s"
  using atob_throws_iff [of s] by (auto simp: decode_def)

lemma decode_valid: "valid_base64 s \<Longrightarrow> decode s = atob s"
  using atob_Inr_iff [of s] by (auto simp: decode_def)

lemma sextets_to_bytes_length: "length (sextets_to_bytes ns) \<le> length ns"
  by (induction ns rule: sextets_to_bytes.induct) (auto simp: Let_def)

lemma sextets_to_bytes_shorter: "ns \<noteq> [] \<Longrightarrow> length (sextets_to_bytes ns) < length ns"
  using sextets_to_bytes_length
  by (cases ns rule: sextets_to_bytes.cases) (auto simp: Let_def le_imp_less_Suc)

lemma remove_padding_length: "length (remove_padding d) \<le> length d"
  by (simp add: remove_padding_def)

lemma strip_data_length: "length (strip_data s) \<le> length s"
proof -
  have "length (strip_data s) \<le> length (filter (\<lambda>c. \<not> ascii_whitespace c) s)"
    unfolding strip_data_def by (rule remove_padding_length)
  also have "\<dots> \<le> length s" by simp
  finally show ?thesis .
qed

lemma atob_shorter:
  assumes "atob s = Inr d" and "s \<noteq> []"
  shows "length d < length s"
proof -
  from assms(1) obtain ns where ns: "those (map base64_value (strip_data s)) = Some ns"
    and d: "d = sextets_to_bytes ns"
    by (auto simp: atob_def forgiving_base64_decode_def Let_def split: option.splits if_splits)
  have len: "length ns = length (strip_data s)"
    using ns by (rule those_map_length)
  show ?thesis
  proof (cases "ns = []")
    case True
    then show ?thesis using d assms(2) by simp
  next
    case False
    then have "length d < length ns" using d sextets_to_bytes_shorter by simp
    then show ?thesis using len strip_data_length [of s] by simp
  qed
qed

lemma atob_fixed_point: "atob s = Inr s \<longleftrightarrow> s = []"
proof
  assume "atob s = Inr s"
  then show "s = []" using atob_shorter [of s s] by auto
next
  assume "s = []"
  then show "atob s = Inr s" by (simp add: decode_eval)
qed



text \<open>
  Claim C5 says that decoding twice equals decoding once on every valid input. The street
  of the contact record is valid, and its decoding \<open>Neuer Weg 29\<close> is valid again, since
  whitespace is ignored and padding is optional: the second call yields seven other bytes.
\<close>

theorem decode_twice_street:
  "valid_base64 CONTACT_street \<and>
   decode CONTACT_street = Inr ''Neuer Weg 29'' \<and>
   decode_twice CONTACT_street =
     Inr [CHR ''5'', CHR 0xEB, CHR 0x9E, CHR 0xAD, CHR ''g'', CHR 0xA0, CHR 0xDB] \<and>
   decode_twice CONTACT_street \<noteq> decode CONTACT_street"
  by (simp add: decode_eval CONTACT_street_def)

text \<open>
  Claim C5, amended. For a valid input \<open>v\<close>, decoding the result of \<open>decode v\<close> once more
  gives the same result exactly when that result is not itself valid under the encoding,
  or is empty.
\<close>

theorem decode_twice_fixed:
  assumes "valid_base64 v" and "decode v = Inr d"
  shows "decode_twice v = decode v \<longleftrightarrow> \<not> valid_base64 d \<or> d = []"
proof (cases "valid_base64 d")
  case False
  then show ?thesis using assms(2) by (simp add: decode_twice_def decode_invalid)
next
  case True
  then have "decode d = atob d" by (rule decode_valid)
  then have "decode_twice v = decode v \<longleftrightarrow> atob d = Inr d"
    using assms(2) by (simp add: decode_twice_def)
  then show ?thesis using True atob_fixed_point [of d] by simp
qed

theorem decode_twice_fixed_witness:
  "valid_base64 CONTACT_email \<and>
   decode CONTACT_email = Inr ''sebastian-gerken@hotmail.com'' \<and>
   \<not> valid_base64 ''sebastian-gerken@hotmail.com'' \<and>
   decode_twice CONTACT_email = decode CONTACT_email"
proof -
  have v: "valid_base64 CONTACT_email"
    by (simp add: decode_eval CONTACT_email_def)
  have d: "decode CONTACT_email = Inr ''sebastian-gerken@hotmail.com''"
    by (simp add: decode_eval CONTACT_email_def)
  have n: "\<not> valid_base64 ''sebastian-gerken@hotmail.com''"
    by (simp add: decode_eval)
  from decode_twice_fixed [OF v d] n have "decode_twice CONTACT_email = decode CONTACT_email"
    by blast
  with v d n show ?thesis by blast
qed

section \<open>Properties of content loading\<close>

lemma fallback_card_count: "card_count fallback_markup = 2"
  unfolding fallback_markup_def card_count_def
  by (simp only: scan_eval cong: scan_weak_cong)

lemma fallback_card_titles:
  "card_titles fallback_markup = [''Multi-Camera Trajectory Fusion'', ''More Projects Coming Soon'']"
  unfolding fallback_markup_def card_titles_def
  by (simp only: scan_eval cong: scan_weak_cong)

lemma loadProjects_try_failed:
  "fetch_failed response \<Longrightarrow> \<exists>e. loadProjects_try response st = Inl (e, st)"
  by (cases response rule: fetch_failed.cases) (auto simp: loadProjects_try_def)

lemma loadTimeline_try_failed:
  "fetch_failed response \<Longrightarrow> \<exists>e. loadTimeline_try response st = Inl (e, st)"
  by (cases response rule: fetch_failed.cases) (auto simp: loadTimeline_try_def)

lemma loadProjects_failed:
  assumes "fetch_failed response" and "projectsGrid st \<noteq> None"
  shows "\<exists>e. loadProjects response st =
           Inr (console_warn ''Projects data not available:'' (message e) st
                  \<lparr>projectsGrid := Some fallback_markup\<rparr>)"
proof -
  from assms(1) obtain e where "loadProjects_try response st = Inl (e, st)"
    using loadProjects_try_failed by blast
  with assms(2) have "loadProjects response st =
      Inr (console_warn ''Projects data not available:'' (message e) st
             \<lparr>projectsGrid := Some fallback_markup\<rparr>)"
    by (auto simp: loadProjects_def renderProjectsFallback_def console_warn_def)
  then show ?thesis ..
qed

lemma loadTimeline_failed:
  assumes "fetch_failed response"
  shows "loadTimeline response st = Inr st \<or>
         (\<exists>e. loadTimeline response st =
            Inr (console_warn ''Timeline data not available:'' (message e) st))"
proof -
  from assms obtain e where "loadTimeline_try response st = Inl (e, st)"
    using loadTimeline_try_failed by blast
  then show ?thesis by (auto simp: loadTimeline_def)
qed

text \<open>
  Claim C1. When the request for the projects document fails (the request is rejected, the
  response is not ok, or its body does not parse) and the page has a projects grid, the
  grid afterwards holds the fixed fallback fragment, which has exactly two cards, titled
  "Multi-Camera Trajectory Fusion" and "More Projects Coming Soon". When the request for
  the timeline document fails, nothing is rendered: the timeline container, the grid, the
  arrays and the observer are as before. Both loaders return; neither throws.
\<close>

theorem fetch_failure_is_handled:
  assumes "fetch_failed projects_response" and "fetch_failed timeline_response"
  shows "(\<exists>st'. loadProjects projects_response st = Inr st' \<and>
            (projectsGrid st \<noteq> None \<longrightarrow> projectsGrid st' = Some fallback_markup)) \<and>
         card_count fallback_markup = 2 \<and>
         card_titles fallback_markup =
           [''Multi-Camera Trajectory Fusion'', ''More Projects Coming Soon''] \<and>
         (\<exists>st'. loadTimeline timeline_response st = Inr st' \<and>
            timelineContainer st' = timelineContainer st \<and>
            projectsGrid st' = projectsGrid st \<and>
            arrays st' = arrays st \<and> observer st' = observer st)"
proof (intro conjI)
  show "\<exists>st'. loadProjects projects_response st = Inr st' \<and>
          (projectsGrid st \<noteq> None \<longrightarrow> projectsGrid st' = Some fallback_markup)"
  proof (cases "projectsGrid st = None")
    case True
    then show ?thesis by (simp add: loadProjects_def)
  next
    case False
    with assms(1) obtain e where "loadProjects projects_response st =
        Inr (console_warn ''Projects data not available:'' (message e) st
               \<lparr>projectsGrid := Some fallback_markup\<rparr>)"
      using loadProjects_failed by blast
    then show ?thesis by simp
  qed
  show "card_count fallback_markup = 2" by (rule fallback_card_count)
  show "card_titles fallback_markup =
      [''Multi-Camera Trajectory Fusion'', ''More Projects Coming Soon'']"
    by (rule fallback_card_titles)
  show "\<exists>st'. loadTimeline timeline_response st = Inr st' \<and>
          timelineContainer st' = timelineContainer st \<and>
          projectsGrid st' = projectsGrid st \<and>
          arrays st' = arrays st \<and> observer st' = observer st"
    using loadTimeline_failed [OF assms(2), of st] by (auto simp: console_warn_def)
qed

theorem fetch_failure_is_handled_witness:
  "fetch_failed (Responded False (Parsed (None :: project_entry list option))) \<and>
   fetch_failed (Rejected (Error ''Failed to fetch'') :: timeline_entry list option fetch_outcome) \<and>
   (\<exists>st'. loadProjects (Responded False (Parsed None)) example_page = Inr st' \<and>
      projectsGrid st' = Some fallback_markup) \<and>
   (\<exists>st'. loadTimeline (Rejected (Error ''Failed to fetch'')) example_page = Inr st' \<and>
      timelineContainer st' = Some [])"
proof -
  have p: "fetch_failed (Responded False (Parsed (None :: project_entry list option)))"
    by simp
  have t: "fetch_failed (Rejected (Error ''Failed to fetch'') :: timeline_entry list option fetch_outcome)"
    by simp
  have g: "projectsGrid example_page \<noteq> None" "timelineContainer example_page = Some []"
    by (simp_all add: example_page_def)
  from fetch_failure_is_handled [OF p t, of example_page] g p t show ?thesis
    by auto
qed

subsection \<open>The timeline is rendered in reverse, from a copy\<close>

lemma array_spread_arrays:
  "array_spread r st = (length (arrays st), st\<lparr>arrays := arrays st @ [arrays st ! r]\<rparr>)"
  by (simp add: array_spread_def array_new_def)

lemma observe_fields:
  "projectsGrid (observe el st) = projectsGrid st"
  "timelineContainer (observe el st) = timelineContainer st"
  "arrays (observe el st) = arrays st"
  "console (observe el st) = console st"
  by (simp_all add: observe_def split: option.splits)

lemma fold_observe_fields:
  "projectsGrid (fold observe els st) = projectsGrid st"
  "timelineContainer (fold observe els st) = timelineContainer st"
  "arrays (fold observe els st) = arrays st"
  "console (fold observe els st) = console st"
  by (induction els arbitrary: st) (simp_all add: observe_fields)

lemma renderTimeline_arrays:
  assumes "r < length (arrays st)"
  shows "arrays (final_state (renderTimeline (Some r) st)) = arrays st @ [rev (arrays st ! r)]"
  using assms
  by (auto simp: renderTimeline_def array_spread_arrays array_reverse_def Let_def
      fold_observe_fields nth_append split: option.splits)

lemma renderTimeline_container:
  assumes "r < length (arrays st)" and "timelineContainer st \<noteq> None"
  shows "\<exists>st'. renderTimeline (Some r) st = Inr st' \<and>
           timelineContainer st' = Some (concat (map timeline_item (rev (arrays st ! r))))"
  using assms
  by (auto simp: renderTimeline_def array_spread_arrays array_reverse_def Let_def
      fold_observe_fields nth_append split: option.splits)

text \<open>
  Claim C2. For every array of timeline entries, \<open>renderTimeline\<close> fills the container with
  the cards of the entries in exact reverse of the input order: the card at position \<open>k\<close>
  is the card of the entry at position \<open>n - 1 - k\<close> of the input.
\<close>

theorem renderTimeline_reverses:
  assumes "r < length (arrays st)" and "timelineContainer st \<noteq> None"
  shows "\<exists>st' cards.
           renderTimeline (Some r) st = Inr st' \<and>
           timelineContainer st' = Some (concat cards) \<and>
           length cards = length (arrays st ! r) \<and>
           (\<forall>k < length cards.
              cards ! k = timeline_item (arrays st ! r ! (length cards - 1 - k)))"
proof -
  let ?items = "arrays st ! r"
  let ?cards = "map timeline_item (rev ?items)"
  from assms obtain st' where st': "renderTimeline (Some r) st = Inr st'"
    "timelineContainer st' = Some (concat ?cards)"
    using renderTimeline_container by blast
  have "length ?cards = length ?items" by simp
  moreover have "\<forall>k < length ?cards. ?cards ! k = timeline_item (?items ! (length ?cards - 1 - k))"
    by (simp add: rev_nth)
  ultimately show ?thesis using st' by blast
qed

text \<open>
  Claim C9. \<open>renderTimeline\<close> does not change its input: whether it returns or throws, the
  array that was passed in, and every array that existed before the call, is as before.
  The reversal is done on a copy.
\<close>

theorem renderTimeline_keeps_input:
  assumes "r < length (arrays st)"
  shows "arrays (final_state (renderTimeline (Some r) st)) ! r = arrays st ! r \<and>
         take (length (arrays st)) (arrays (final_state (renderTimeline (Some r) st))) = arrays st"
  using assms by (simp add: renderTimeline_arrays nth_append)

text \<open>
  The example of the specification: for entries of the periods 2019, 2021, 2023 in this
  order, the periods shown by the rendered markup are 2023, 2021, 2019.
\<close>

lemma example_cards_periods:
  "timeline_periods
     (concat [timeline_item (entry_of_period ''2023''), timeline_item (entry_of_period ''2021''),
              timeline_item (entry_of_period ''2019'')]) = [''2023'', ''2021'', ''2019'']"
  apply (simp add: timeline_item_def entry_of_period_def isCurrentClass_def typeClass_def
      typeLabel_def current_badge_def description_block_def highlights_block_def
      timeline_periods_def
      del: append.simps append_Cons append_Nil cong: scan_cong)
  apply (simp only: scan_eval cong: scan_weak_cong)
  done

lemma list3_nth: "length xs = 3 \<Longrightarrow> xs = [xs ! 0, xs ! 1, xs ! 2]"
  by (cases xs; cases "tl xs"; cases "tl (tl xs)") auto

theorem renderTimeline_reverses_witness:
  "\<exists>st' markup.
     renderTimeline (Some 0) example_page = Inr st' \<and>
     timelineContainer st' = Some markup \<and>
     timeline_periods markup = [''2023'', ''2021'', ''2019'']"
proof -
  have pre: "0 < length (arrays example_page)" "timelineContainer example_page \<noteq> None"
    by (simp_all add: example_page_def)
  have items: "arrays example_page ! 0 =
      [entry_of_period ''2019'', entry_of_period ''2021'', entry_of_period ''2023'']"
    by (simp add: example_page_def)
  from renderTimeline_reverses [OF pre] obtain st' cards where
    r: "renderTimeline (Some 0) example_page = Inr st'" and
    c: "timelineContainer st' = Some (concat cards)" and
    len0: "length cards = length (arrays example_page ! 0)" and
    nth: "\<forall>k < length cards.
            cards ! k = timeline_item (arrays example_page ! 0 ! (length cards - 1 - k))"
    by blast
  from len0 have len: "length cards = 3" by (simp add: items)
  have "cards ! 0 = timeline_item (entry_of_period ''2023'')"
    using nth [rule_format, of 0] by (simp add: len items)
  moreover have "cards ! 1 = timeline_item (entry_of_period ''2021'')"
    using nth [rule_format, of 1] by (simp add: len items)
  moreover have "cards ! 2 = timeline_item (entry_of_period ''2019'')"
    using nth [rule_format, of 2] by (simp add: len items)
  ultimately have "cards ! 0 = timeline_item (entry_of_period ''2023'')"
    "cards ! 1 = timeline_item (entry_of_period ''2021'')"
    "cards ! 2 = timeline_item (entry_of_period ''2019'')"
    by blast+
  with list3_nth [OF len] have "cards =
      [timeline_item (entry_of_period ''2023''), timeline_item (entry_of_period ''2021''),
       timeline_item (entry_of_period ''2019'')]"
    by simp
  then have "timeline_periods (concat cards) = [''2023'', ''2021'', ''2019'']"
    by (simp only: example_cards_periods)
  with r c show ?thesis by blast
qed

theorem renderTimeline_keeps_input_witness:
  "0 < length (arrays example_page) \<and>
   arrays (final_state (renderTimeline (Some 0) example_page)) ! 0 =
     [entry_of_period ''2019'', entry_of_period ''2021'', entry_of_period ''2023'']"
proof -
  have pre: "0 < length (arrays example_page)" by (simp add: example_page_def)
  from renderTimeline_keeps_input [OF pre] pre show ?thesis
    by (simp add: example_page_def)
qed

section \<open>Properties of the project cards\<close>

lemma occurrences_plain:
  "plain_text x \<Longrightarrow> occurrences (CHR ''<'' # pat) (x @ ys) = occurrences (CHR ''<'' # pat) ys"
  by (induction x) (auto simp: plain_text_def)

lemmas links_scan = scan_eval occurrences_plain [where pat = "tl links_open", unfolded links_open_def list.sel]

lemma placeholder_no_links:
  "occurrences links_open (placeholder_block @ ys) = occurrences links_open ys"
  unfolding links_open_def placeholder_block_def
  by (simp only: scan_eval cong: scan_weak_cong)

lemma cardClass_no_links:
  "occurrences links_open (cardClass p @ ys) = occurrences links_open ys"
  unfolding links_open_def cardClass_def
  by (cases "isComingSoon p"; simp only: if_True if_False; simp only: scan_eval cong: scan_weak_cong)

lemma image_block_no_links:
  assumes "plain_option (project_entry.image p)" and "plain_text (project_entry.title p)"
  shows "occurrences links_open (image_block p @ ys) = occurrences links_open ys"
proof (cases "project_entry.image p")
  case None
  then show ?thesis by (simp only: image_block_def option.case placeholder_no_links)
next
  case (Some url)
  show ?thesis
  proof (cases "url = []")
    case True
    then show ?thesis using Some by (simp only: image_block_def option.case placeholder_no_links simp_thms if_False)
  next
    case False
    from assms(1) Some have url: "plain_text url" by (simp add: plain_option_def)
    have eq: \<open>image_block p = ''<img src="'' @ url @ ''" alt="'' @ project_entry.title p @
               ''" loading="lazy" width="400" height="225">''\<close>
      using False Some by (simp only: image_block_def option.case if_True simp_thms)
    show ?thesis
      unfolding links_open_def eq
      using url assms(2)
      by (simp only: links_scan cong: scan_weak_cong)
  qed
qed

lemma tag_span_no_links:
  assumes "plain_text t"
  shows "occurrences links_open (tag_span t @ ys) = occurrences links_open ys"
  unfolding links_open_def tag_span_def
  using assms by (simp only: links_scan cong: scan_weak_cong)

lemma tag_spans_no_links:
  assumes "list_all plain_text ts"
  shows "occurrences links_open (concat (map tag_span ts) @ ys) = occurrences links_open ys"
  using assms
proof (induction ts)
  case Nil
  then show ?case by simp
next
  case (Cons t ts)
  have "occurrences links_open (concat (map tag_span (t # ts)) @ ys) =
      occurrences links_open (tag_span t @ (concat (map tag_span ts) @ ys))"
    by simp
  also have "\<dots> = occurrences links_open (concat (map tag_span ts) @ ys)"
    using Cons.prems by (simp add: tag_span_no_links)
  also have "\<dots> = occurrences links_open ys"
    using Cons.prems by (simp add: Cons.IH)
  finally show ?case .
qed

lemma tags_block_no_links:
  assumes "list_all plain_text (project_entry.tags p)"
  shows "occurrences links_open (tags_block p @ ys) = occurrences links_open ys"
proof (cases "project_entry.tags p = []")
  case True
  then show ?thesis by (simp add: tags_block_def)
next
  case False
  then have eq: \<open>tags_block p = ''<div class="project-card__tags">\<newline>                    '' @
           concat (map tag_span (project_entry.tags p)) @
           ''\<newline>                  </div>''\<close>
    by (simp only: tags_block_def length_greater_0_conv if_True simp_thms)
  have spans: "\<And>zs. occurrences links_open (concat (map tag_span (project_entry.tags p)) @ zs)
      = occurrences links_open zs"
    using assms by (rule tag_spans_no_links)
  show ?thesis
    unfolding eq
    using spans [unfolded links_open_def] unfolding links_open_def
    by (simp only: links_scan cong: scan_weak_cong)
qed

lemma demo_link_body_no_links:
  "occurrences links_open (demo_link_body @ ys) = occurrences links_open ys"
  unfolding links_open_def demo_link_body_def
  by (simp only: scan_eval cong: scan_weak_cong)

lemma github_link_body_no_links:
  "occurrences links_open (github_link_body @ ys) = occurrences links_open ys"
  unfolding links_open_def github_link_body_def
  by (simp only: scan_eval cong: scan_weak_cong)

lemma demo_link_no_links:
  assumes "plain_option (demo (project_entry.links p))"
  shows "occurrences links_open (demo_link p @ ys) = occurrences links_open ys"
proof (cases "truthy (demo (project_entry.links p))")
  case False
  then have "demo_link p = []"
    by (auto simp: demo_link_def truthy_def split: option.splits)
  then show ?thesis by simp
next
  case True
  then obtain url where url: "demo (project_entry.links p) = Some url" "url \<noteq> []"
    by (auto simp: truthy_def split: option.splits)
  then have eq: \<open>demo_link p = ''<a href="'' @ url @ demo_link_body\<close>
    by (simp add: demo_link_def)
  from assms url have "plain_text url" by (simp add: plain_option_def)
  then show ?thesis
    unfolding eq
    using demo_link_body_no_links [unfolded links_open_def] unfolding links_open_def
    by (simp only: links_scan cong: scan_weak_cong)
qed

lemma github_link_no_links:
  assumes "plain_option (github (project_entry.links p))"
  shows "occurrences links_open (github_link p @ ys) = occurrences links_open ys"
proof (cases "truthy (github (project_entry.links p))")
  case False
  then have "github_link p = []"
    by (auto simp: github_link_def truthy_def split: option.splits)
  then show ?thesis by simp
next
  case True
  then obtain url where url: "github (project_entry.links p) = Some url" "url \<noteq> []"
    by (auto simp: truthy_def split: option.splits)
  then have eq: \<open>github_link p = ''<a href="'' @ url @ github_link_body\<close>
    by (simp add: github_link_def)
  from assms url have "plain_text url" by (simp add: plain_option_def)
  then show ?thesis
    unfolding eq
    using github_link_body_no_links [unfolded links_open_def] unfolding links_open_def
    by (simp only: links_scan cong: scan_weak_cong)
qed

lemma links_block_hidden: "\<not> links_shown p \<Longrightarrow> links_block p = []"
  by (simp add: links_block_def links_shown_def)

lemma links_block_shown:
  \<open>links_shown p \<Longrightarrow>
   links_block p = links_open @ ''\<newline>                    '' @ demo_link p @
     ''\<newline>                    '' @ github_link p @ ''\<newline>                  </div>''\<close>
  by (simp add: links_block_def links_shown_def)

lemma links_block_count:
  assumes "plain_option (github (project_entry.links p))"
    and "plain_option (demo (project_entry.links p))"
  shows "occurrences links_open (links_block p @ ys) =
           (if links_shown p then 1 else 0) + occurrences links_open ys"
proof (cases "links_shown p")
  case False
  then show ?thesis by (simp add: links_block_hidden)
next
  case True
  have d: "\<And>zs. occurrences links_open (demo_link p @ zs) = occurrences links_open zs"
    using assms(2) by (rule demo_link_no_links)
  have g: "\<And>zs. occurrences links_open (github_link p @ zs) = occurrences links_open zs"
    using assms(1) by (rule github_link_no_links)
  have "occurrences links_open (links_block p @ ys) = 1 + occurrences links_open ys"
    unfolding links_block_shown [OF True]
    using d [unfolded links_open_def] g [unfolded links_open_def] unfolding links_open_def
    by (simp only: links_scan cong: scan_weak_cong)
  then show ?thesis using True by simp
qed

lemma project_card_links:
  assumes "plain_project p"
  shows "links_blocks (project_card p) = (if links_shown p then 1 else 0)"
proof -
  from assms have plain: "plain_text (project_entry.title p)"
    "plain_text (project_entry.description p)" "list_all plain_text (project_entry.tags p)"
    "plain_option (project_entry.image p)" "plain_option (github (project_entry.links p))"
    "plain_option (demo (project_entry.links p))"
    by (simp_all add: plain_project_def)
  note blocks =
    cardClass_no_links [of p, unfolded links_open_def]
    image_block_no_links [OF plain(4) plain(1), unfolded links_open_def]
    tags_block_no_links [OF plain(3), unfolded links_open_def]
    links_block_count [OF plain(5) plain(6), unfolded links_open_def]
  have "occurrences links_open (project_card p) = (if links_shown p then 1 else 0) + 0"
    unfolding project_card_def links_open_def
    using plain(1,2)
    by (simp only: links_scan blocks cong: scan_weak_cong)
  then show ?thesis by (simp add: links_blocks_def)
qed

text \<open>
  Claim C3. A card whose entry has the status \<open>coming-soon\<close> has an empty links block,
  whatever its links are. For any other status the links block is present exactly when
  the github link or the demo link is present (a non-empty text), and then it begins with
  the opening tag of the links container. On the whole card: for an entry whose texts
  carry no markup, the opening tag of the links container occurs once in the card when
  the block is present and not at all otherwise.
\<close>

theorem coming_soon_omits_links:
  "(project_entry.status p = ''coming-soon'' \<longrightarrow> links_block p = []) \<and>
   (project_entry.status p \<noteq> ''coming-soon'' \<longrightarrow>
      (links_block p \<noteq> [] \<longleftrightarrow>
         truthy (github (project_entry.links p)) \<or> truthy (demo (project_entry.links p)))) \<and>
   (links_block p \<noteq> [] \<longrightarrow> starts_with links_open (links_block p)) \<and>
   (plain_project p \<longrightarrow>
      links_blocks (project_card p) =
        (if project_entry.status p \<noteq> ''coming-soon'' \<and>
            (truthy (github (project_entry.links p)) \<or> truthy (demo (project_entry.links p)))
         then 1 else 0))"
proof (intro conjI impI)
  assume "project_entry.status p = ''coming-soon''"
  then show "links_block p = []" by (simp add: links_block_def isComingSoon_def)
next
  assume "project_entry.status p \<noteq> ''coming-soon''"
  then have "links_shown p \<longleftrightarrow>
      truthy (github (project_entry.links p)) \<or> truthy (demo (project_entry.links p))"
    by (simp add: links_shown_def isComingSoon_def)
  moreover have "links_block p \<noteq> [] \<longleftrightarrow> links_shown p"
    using links_block_hidden [of p] links_block_shown [of p]
    by (cases "links_shown p") (simp_all add: links_open_def)
  ultimately show "links_block p \<noteq> [] \<longleftrightarrow>
      truthy (github (project_entry.links p)) \<or> truthy (demo (project_entry.links p))"
    by simp
next
  assume "links_block p \<noteq> []"
  then have "links_shown p" using links_block_hidden [of p] by blast
  then show "starts_with links_open (links_block p)"
    unfolding links_block_shown [OF \<open>links_shown p\<close>] links_open_def
    by (simp only: scan_eval cong: scan_weak_cong)
next
  assume "plain_project p"
  then show "links_blocks (project_card p) =
      (if project_entry.status p \<noteq> ''coming-soon'' \<and>
          (truthy (github (project_entry.links p)) \<or> truthy (demo (project_entry.links p)))
       then 1 else 0)"
    by (simp add: project_card_links links_shown_def isComingSoon_def)
qed

theorem coming_soon_omits_links_witness:
  "truthy (github (project_entry.links (linked_project ''coming-soon''))) \<and>
   plain_project (linked_project ''coming-soon'') \<and>
   links_block (linked_project ''coming-soon'') = [] \<and>
   links_blocks (project_card (linked_project ''coming-soon'')) = 0 \<and>
   links_block (linked_project ''normal'') \<noteq> [] \<and>
   links_blocks (project_card (linked_project ''normal'')) = 1"
proof -
  have soon: "project_entry.status (linked_project ''coming-soon'') = ''coming-soon''"
    and normal: "project_entry.status (linked_project ''normal'') \<noteq> ''coming-soon''"
    and links: "truthy (github (project_entry.links (linked_project st)))" for st
    by (simp_all add: linked_project_def truthy_def)
  have plain: "plain_project (linked_project st)" for st
    by (simp add: linked_project_def plain_project_def plain_text_def plain_option_def)
  from coming_soon_omits_links [of "linked_project ''coming-soon''"] soon plain
  have "links_block (linked_project ''coming-soon'') = []"
    "links_blocks (project_card (linked_project ''coming-soon'')) = 0"
    by simp_all
  moreover from coming_soon_omits_links [of "linked_project ''normal''"] normal plain links
  have "links_block (linked_project ''normal'') \<noteq> []"
    "links_blocks (project_card (linked_project ''normal'')) = 1"
    by simp_all
  ultimately show ?thesis using links plain by blast
qed

section \<open>Properties of the scroll observer\<close>

















lemma updateTimelineFill_writes:
  assumes "timelineLineFill pg = Some hs" and "0 < length (timeline_items pg)"
  shows "timelineLineFill (updateTimelineFill pg) = Some (hs @ [Finite (progress pg)])"
  using assms by (simp add: updateTimelineFill_def Let_def js_divide_def progress_def)












text \<open>
  Claim C10. When the page has no fill element, or no timeline element, \<open>updateTimelineFill\<close>
  leaves the page exactly as it is: no quotient is formed and no height is written. In
  every other case the height it writes is a finite number, never the result of a
  division by zero.
\<close>

theorem updateTimelineFill_guards_division:
  "(timelineLineFill pg = None \<or> timeline_items pg = [] \<longrightarrow> updateTimelineFill pg = pg) \<and>
   (\<forall>hs. timelineLineFill pg = Some hs \<longrightarrow>
      timelineLineFill (updateTimelineFill pg) = Some hs \<or>
      timelineLineFill (updateTimelineFill pg) = Some (hs @ [Finite (progress pg)]))"
proof (intro conjI allI impI)
  assume "timelineLineFill pg = None \<or> timeline_items pg = []"
  then show "updateTimelineFill pg = pg"
    by (auto simp: updateTimelineFill_def Let_def split: option.splits)
next
  fix hs
  assume hs: "timelineLineFill pg = Some hs"
  show "timelineLineFill (updateTimelineFill pg) = Some hs \<or>
      timelineLineFill (updateTimelineFill pg) = Some (hs @ [Finite (progress pg)])"
  proof (cases "timeline_items pg = []")
    case True
    then show ?thesis using hs by (simp add: updateTimelineFill_def)
  next
    case False
    then have "0 < length (timeline_items pg)" by simp
    from updateTimelineFill_writes [OF hs this] show ?thesis by simp
  qed
qed

theorem updateTimelineFill_guards_division_witness:
  "timeline_items page_without_timeline = [] \<and>
   updateTimelineFill page_without_timeline = page_without_timeline"
proof -
  have "timeline_items page_without_timeline = []"
    by (simp add: timeline_items_def page_without_timeline_def classList_contains_def)
  with updateTimelineFill_guards_division [of page_without_timeline] show ?thesis by blast
qed

end
